theory Spec2Isabelle
  imports Complex_Main
begin

section \<open>Data model of the machine UI (packs/BP/scripts/ui.ts)\<close>

text \<open>
  The machine UI is drawn into the item slots of the machine entity's container.
  JavaScript numbers that hold slot indices, counts and storage amounts are integers
  (\<open>int\<close>). The \<open>change\<close> of a storage-bar directive is a double (\<open>Number\<close>
  below), which the pass adds up with \<open>+=\<close>. A progress value is only compared with
  its bounds and tested with \<open>Number.isInteger\<close>; it is a rational (\<open>rat\<close>), which
  decides both.
\<close>

subsection \<open>JavaScript numbers\<close>

text \<open>
  A double is \<open>Finite m e\<close>, the number \<open>m * 2 ^ e\<close> with \<open>m\<close> odd (or zero, then
  \<open>e\<close> is zero too), \<open>\<bar>m\<bar> < 2 ^ 53\<close> and \<open>-1074 \<le> e\<close>, or one of \<open>NaN\<close>,
  \<open>Infinity\<close> and \<open>-Infinity\<close>. The two zeros are one value here: the scripts
  only test a change for truth and for \<open>change < 0\<close>, and both zeros answer alike.
\<close>

datatype Number = Finite int int | NaN | Infinity | NegInfinity

fun bitLength :: "nat \<Rightarrow> nat" where
  "bitLength n = (if n = 0 then 0 else bitLength (n div 2) + 1)"

declare bitLength.simps [simp del]

fun stripZeros :: "nat \<Rightarrow> int \<Rightarrow> nat \<times> int" where
  "stripZeros q e =
     (if q = 0 then (0, 0) else if even q then stripZeros (q div 2) (e + 1) else (q, e))"

declare stripZeros.simps [simp del]

text \<open>
  The double nearest to \<open>q * 2 ^ e\<close> (negated if \<open>negative\<close>), ties to the even
  mantissa: at most 53 bits are kept and none below \<open>2 ^ -1074\<close>; from \<open>2 ^ 1024\<close>
  on the result is infinite.
\<close>

definition roundDouble :: "bool \<Rightarrow> nat \<Rightarrow> int \<Rightarrow> Number" where
  "roundDouble negative q e =
     (let k = max (int (bitLength q) - 53) (- 1074 - e);
          (q', e') = (if k \<le> 0 then (q, e)
                      else (let d = 2 ^ nat k; lo = q mod d; hi = q div d
                            in (if lo * 2 > d \<or> (lo * 2 = d \<and> odd hi) then hi + 1 else hi, e + k)))
      in if q' = 0 then Finite 0 0
         else if int (bitLength q') + e' > 1024 then (if negative then NegInfinity else Infinity)
         else (case stripZeros q' e' of
                 (q'', e'') \<Rightarrow> Finite (if negative then - int q'' else int q'') e''))"

text \<open>The operator \<open>+\<close> on two numbers.\<close>

fun jsAdd :: "Number \<Rightarrow> Number \<Rightarrow> Number" where
  "jsAdd (Finite m1 e1) (Finite m2 e2) =
     (let e = min e1 e2;
          m = m1 * 2 ^ nat (e1 - e) + m2 * 2 ^ nat (e2 - e)
      in roundDouble (m < 0) (nat \<bar>m\<bar>) e)"
| "jsAdd NaN b = NaN"
| "jsAdd a NaN = NaN"
| "jsAdd Infinity NegInfinity = NaN"
| "jsAdd NegInfinity Infinity = NaN"
| "jsAdd Infinity b = Infinity"
| "jsAdd a Infinity = Infinity"
| "jsAdd NegInfinity b = NegInfinity"
| "jsAdd a NegInfinity = NegInfinity"

text \<open>A number as a condition (\<open>if (change)\<close>), and the test \<open>change < 0\<close>.\<close>

fun truthy :: "Number \<Rightarrow> bool" where
  "truthy (Finite m e) = (m \<noteq> 0)"
| "truthy NaN = False"
| "truthy Infinity = True"
| "truthy NegInfinity = True"

fun lessThanZero :: "Number \<Rightarrow> bool" where
  "lessThanZero (Finite m e) = (m < 0)"
| "lessThanZero NaN = False"
| "lessThanZero Infinity = False"
| "lessThanZero NegInfinity = True"

text \<open>
  The names an object literal inherits from \<open>Object.prototype\<close>, which the operator
  \<open>in\<close> and a property read find in an empty \<open>{}\<close>. \<open>Object.prototype\<close> is taken
  as the language defines it; properties that scripts add to it are outside the model.
\<close>

definition objectPrototypeNames :: "string list" where
  "objectPrototypeNames =
     [''constructor'', ''hasOwnProperty'', ''isPrototypeOf'', ''propertyIsEnumerable'',
      ''toLocaleString'', ''toString'', ''valueOf'', ''__proto__'', ''__defineGetter__'',
      ''__defineSetter__'', ''__lookupGetter__'', ''__lookupSetter__'']"

subsection \<open>Registry types (public_api/src/registry_types.ts)\<close>

datatype UiProgressIndicatorElementType = arrow | flame

record UiItemSlotElement =
  index :: int
  slotId :: int
  allowedItems :: "string list"

datatype UiElement =
    storageBar int
  | itemSlot UiItemSlotElement
  | progressIndicator UiProgressIndicatorElementType int

record UiStorageBarUpdateOptions =
  element :: string
  barType :: string
  change :: Number

record UpdateUiHandlerResponse =
  storageBars :: "UiStorageBarUpdateOptions list option"
  progressIndicators :: "(string \<rightharpoonup> rat) option"

datatype StorageTypeColor = black | orange | pink | purple | red | yellow

record StorageTypeDefinition =
  category :: string
  color :: StorageTypeColor
  name :: string

record MachineItemStack =
  typeIndex :: int
  count :: int

text \<open>
  \<open>InternalRegisteredMachine\<close>, as far as \<open>updateEntityUi\<close> reads it. \<open>uiElements\<close>
  is the element table in the order \<open>Object.entries\<close> enumerates it.
\<close>

record InternalRegisteredMachine =
  machineId :: string
  uiElements :: "(string \<times> UiElement) list option"
  updateUiEvent :: "string option"

subsection \<open>Host objects\<close>

type_synonym Vector3 = "rat \<times> rat \<times> rat"

record DimensionLocation =
  blockX :: int
  blockY :: int
  blockZ :: int
  dimension :: string

text \<open>
  An item stack of the host: its catalog identity, its amount and its custom data, of
  which the scripts only ever set the name tag. Two stacks stack with each other when
  identity and custom data agree; the amount plays no part.
\<close>

record ItemStack =
  typeId :: string
  amount :: int
  nameTag :: "string option"

definition newItemStack :: "string \<Rightarrow> ItemStack" where
  "newItemStack ident = \<lparr>typeId = ident, amount = 1, nameTag = None\<rparr>"

definition isStackableWith :: "ItemStack \<Rightarrow> ItemStack \<Rightarrow> bool" where
  "isStackableWith a b \<longleftrightarrow> typeId a = typeId b \<and> nameTag a = nameTag b"

text \<open>
  What a call does to the outside, in the order it does it: container writes, ledger
  writes (with their notify flag), items spawned in the player's dimension at the
  player's location, and sweeps of the player's cursor and inventory.
\<close>

datatype Effect =
    SetItem int "ItemStack option"
  | SetMachineSlotItem string int "MachineItemStack option" bool
  | SpawnItem ItemStack string Vector3
  | ClearUiItems

text \<open>
  The state a reconciliation pass reads and writes: the machine entity with its
  container (slot index to occupant), the observing player, the ledger, and the
  module-level map \<open>machineChangedItemSlots\<close> (block uid to changed slot ids).
  The scripts never test a slot index against the container's size, and neither does the
  model: an index the host would refuse is outside it.
\<close>

record World =
  inventory :: "int \<Rightarrow> ItemStack option"
  entityValid :: bool
  entityLocation :: Vector3
  entityDimension :: string
  cursorItem :: "ItemStack option"
  playerInventory :: "ItemStack option list"
  playerLocation :: Vector3
  playerDimension :: string
  slotItems :: "string \<times> int \<Rightarrow> MachineItemStack option"
  machineStorage :: "string \<times> string \<Rightarrow> int option"
  machineChangedItemSlots :: "string \<Rightarrow> int list option"
  effects :: "Effect list"

text \<open>
  The parts of the repository and of the host catalog that \<open>ui.ts\<close> imports and that
  are taken as given: which item kinds carry the tag
  \<open>fluffyalien_energisticscore:ui_item\<close>, \<open>truncateNumber\<close> of \<open>utils/string\<close>,
  \<open>getBlockUniqueId\<close> and \<open>machineItemStackToItemStack\<close> of \<open>data\<close>, and the
  storage type registry.
\<close>

record Imports =
  hasUiItemTag :: "string \<Rightarrow> bool"
  truncateNumber :: "Number \<Rightarrow> nat \<Rightarrow> string"
  getBlockUniqueId :: "DimensionLocation \<Rightarrow> string"
  machineItemStackToItemStack :: "UiItemSlotElement \<Rightarrow> MachineItemStack option \<Rightarrow> ItemStack"
  storageTypeRegistry :: "string \<rightharpoonup> StorageTypeDefinition"

datatype Error =
    NoUiDefined string
  | MissingUpdateUiHandler string
  | StorageTypeDoesNotExist DimensionLocation string
  | ProgressIndicatorValue UiProgressIndicatorElementType rat
  | ProgressIndicatorNotANumber UiProgressIndicatorElementType string

text \<open>A call either returns, or throws and leaves the world as it was at the throw.\<close>

type_synonym Outcome = "(Error \<times> World) + World"

subsection \<open>Constants\<close>

definition STORAGE_AMOUNT_PER_BAR_SEGMENT :: int where
  "STORAGE_AMOUNT_PER_BAR_SEGMENT = 100"

definition MAX_MACHINE_STORAGE :: int where
  "MAX_MACHINE_STORAGE = STORAGE_AMOUNT_PER_BAR_SEGMENT * 64"

fun PROGRESS_INDICATOR_MAX_VALUES :: "UiProgressIndicatorElementType \<Rightarrow> int" where
  "PROGRESS_INDICATOR_MAX_VALUES arrow = 16"
| "PROGRESS_INDICATOR_MAX_VALUES flame = 13"

fun STORAGE_TYPE_COLOR_TO_FORMATTING_CODE :: "StorageTypeColor \<Rightarrow> string" where
  "STORAGE_TYPE_COLOR_TO_FORMATTING_CODE black = ''8''"
| "STORAGE_TYPE_COLOR_TO_FORMATTING_CODE orange = ''6''"
| "STORAGE_TYPE_COLOR_TO_FORMATTING_CODE pink = ''d''"
| "STORAGE_TYPE_COLOR_TO_FORMATTING_CODE purple = ''u''"
| "STORAGE_TYPE_COLOR_TO_FORMATTING_CODE red = ''4''"
| "STORAGE_TYPE_COLOR_TO_FORMATTING_CODE yellow = ''e''"

fun colorString :: "StorageTypeColor \<Rightarrow> string" where
  "colorString black = ''black''"
| "colorString orange = ''orange''"
| "colorString pink = ''pink''"
| "colorString purple = ''purple''"
| "colorString red = ''red''"
| "colorString yellow = ''yellow''"

fun indicatorString :: "UiProgressIndicatorElementType \<Rightarrow> string" where
  "indicatorString arrow = ''arrow''"
| "indicatorString flame = ''flame''"

subsection \<open>Number.prototype.toString on integers\<close>

definition digitChar :: "nat \<Rightarrow> char" where
  "digitChar d = ''0123456789'' ! d"

fun natToString :: "nat \<Rightarrow> string" where
  "natToString n = (if n < 10 then [digitChar n] else natToString (n div 10) @ [digitChar (n mod 10)])"

declare natToString.simps [simp del]

definition toString :: "int \<Rightarrow> string" where
  "toString i = (if i < 0 then CHR ''-'' # natToString (nat (- i)) else natToString (nat i))"

text \<open>The section sign U+00A7 that starts a formatting code.\<close>

definition sectionSign :: char where
  "sectionSign = CHR 0xA7"

section \<open>Primitive operations on the world\<close>

definition setItem :: "World \<Rightarrow> int \<Rightarrow> ItemStack option \<Rightarrow> World" where
  "setItem w i item =
     w\<lparr>inventory := (inventory w)(i := item), effects := effects w @ [SetItem i item]\<rparr>"

definition spawnItem :: "World \<Rightarrow> ItemStack \<Rightarrow> World" where
  "spawnItem w item =
     w\<lparr>effects := effects w @ [SpawnItem item (playerDimension w) (playerLocation w)]\<rparr>"

definition isUiItem :: "Imports \<Rightarrow> ItemStack \<Rightarrow> bool" where
  "isUiItem I item = hasUiItemTag I (typeId item)"

text \<open>
  Modelled from the spec: the ledger operations \<open>getMachineStorage\<close>,
  \<open>getMachineSlotItem\<close> and \<open>setMachineSlotItem\<close> of \<open>data\<close>, which are not among
  the sources. The ledger is keyed by block identity; a storage level never written reads
  as 0, as in \<open>getMachineStorage\<close> of the public API; a slot write stores the item (or
  removes it) and carries the caller's notify flag.
\<close>

definition getMachineStorage :: "Imports \<Rightarrow> World \<Rightarrow> DimensionLocation \<Rightarrow> string \<Rightarrow> int" where
  "getMachineStorage I w loc ty =
     (case machineStorage w (getBlockUniqueId I loc, ty) of None \<Rightarrow> 0 | Some v \<Rightarrow> v)"

definition getMachineSlotItem ::
  "Imports \<Rightarrow> World \<Rightarrow> DimensionLocation \<Rightarrow> int \<Rightarrow> MachineItemStack option" where
  "getMachineSlotItem I w loc sid = slotItems w (getBlockUniqueId I loc, sid)"

definition setMachineSlotItem ::
  "Imports \<Rightarrow> World \<Rightarrow> DimensionLocation \<Rightarrow> int \<Rightarrow> MachineItemStack option \<Rightarrow> bool \<Rightarrow> World" where
  "setMachineSlotItem I w loc sid newItem notify =
     w\<lparr>slotItems := (slotItems w)((getBlockUniqueId I loc, sid) := newItem),
       effects := effects w @ [SetMachineSlotItem (getBlockUniqueId I loc) sid newItem notify]\<rparr>"

section \<open>Drift cleanup on the player\<close>

text \<open>The loop over the player's inventory, entered at slot \<open>i\<close>.\<close>

function clearUiItemsLoop ::
  "Imports \<Rightarrow> nat \<Rightarrow> bool \<Rightarrow> ItemStack option list \<Rightarrow> bool \<times> ItemStack option list" where
  "clearUiItemsLoop I i anythingCleared playerInv =
     (if i < length playerInv
      then (case playerInv ! i of
              Some item \<Rightarrow>
                if isUiItem I item then clearUiItemsLoop I (i + 1) True (playerInv[i := None])
                else clearUiItemsLoop I (i + 1) anythingCleared playerInv
            | None \<Rightarrow> clearUiItemsLoop I (i + 1) anythingCleared playerInv)
      else (anythingCleared, playerInv))"
  by pat_completeness auto
termination
  by (relation "measure (\<lambda>(I, i, c, xs). length xs - i)") auto

declare clearUiItemsLoop.simps [simp del]

definition clearUiItemsFromPlayer :: "Imports \<Rightarrow> World \<Rightarrow> bool \<times> World" where
  "clearUiItemsFromPlayer I w =
     (let (cleared1, cursor') =
            (case cursorItem w of
               Some item \<Rightarrow> if isUiItem I item then (True, None) else (False, Some item)
             | None \<Rightarrow> (False, None));
          (anythingCleared, playerInv') = clearUiItemsLoop I 0 cleared1 (playerInventory w)
      in (anythingCleared,
          w\<lparr>cursorItem := cursor', playerInventory := playerInv',
            effects := effects w @ [ClearUiItems]\<rparr>))"

section \<open>The storage bar\<close>

definition fillDisabledUiBar :: "World \<Rightarrow> int \<Rightarrow> World" where
  "fillDisabledUiBar w startIndex =
     (let itemStack = (newItemStack ''fluffyalien_energisticscore:ui_disabled_storage_bar_segment'')
                        \<lparr>nameTag := Some (sectionSign # ''rDisabled'')\<rparr>;
          w1 = setItem w startIndex (Some itemStack);
          w2 = setItem w1 (startIndex + 1) (Some itemStack);
          w3 = setItem w2 (startIndex + 2) (Some itemStack)
      in setItem w3 (startIndex + 3) (Some itemStack))"

text \<open>The stack that one iteration of the loop of \<open>fillUiBar\<close> builds.\<close>

definition segmentItem :: "Imports \<Rightarrow> string \<Rightarrow> string \<Rightarrow> string \<Rightarrow> int \<Rightarrow> Number \<Rightarrow> int \<Rightarrow> ItemStack" where
  "segmentItem I segmentItemBaseId labelColorCode nm amt chg segments =
     (let label = [sectionSign] @ ''r'' @ [sectionSign] @ labelColorCode @ toString amt @ ''/''
                    @ toString MAX_MACHINE_STORAGE @ '' '' @ nm;
          label' = (if truthy chg
                    then label @ '' ('' @ (if lessThanZero chg then '''' else ''+'')
                           @ truncateNumber I chg 2 @ ''/t)''
                    else label)
      in (newItemStack (segmentItemBaseId @ toString segments))\<lparr>nameTag := Some label'\<rparr>)"

text \<open>
  The loop \<open>for (let i = startIndex + 3; i >= startIndex; i--)\<close>, entered with the
  current \<open>i\<close> and \<open>remainingSegments\<close>.
\<close>

function fillUiBarLoop ::
  "Imports \<Rightarrow> string \<Rightarrow> string \<Rightarrow> string \<Rightarrow> int \<Rightarrow> int \<Rightarrow> Number \<Rightarrow> int \<Rightarrow> int \<Rightarrow> World \<Rightarrow> World" where
  "fillUiBarLoop I segmentItemBaseId labelColorCode nm amt startIndex chg i remainingSegments w =
     (if i \<ge> startIndex
      then (let segments = min 16 remainingSegments;
                remainingSegments' = remainingSegments - segments;
                itemStack = segmentItem I segmentItemBaseId labelColorCode nm amt chg segments
            in fillUiBarLoop I segmentItemBaseId labelColorCode nm amt startIndex chg (i - 1)
                 remainingSegments' (setItem w i (Some itemStack)))
      else w)"
  by pat_completeness auto
termination
  by (relation "measure (\<lambda>(I, b, l, n, a, s, c, i, r, w). nat (i - s + 1))") auto

declare fillUiBarLoop.simps [simp del]

definition fillUiBar ::
  "Imports \<Rightarrow> string \<Rightarrow> string \<Rightarrow> string \<Rightarrow> World \<Rightarrow> int \<Rightarrow> int \<Rightarrow> Number \<Rightarrow> World" where
  "fillUiBar I segmentItemBaseId labelColorCode nm w amt startIndex chg =
     (let remainingSegments = amt div STORAGE_AMOUNT_PER_BAR_SEGMENT
      in fillUiBarLoop I segmentItemBaseId labelColorCode nm amt startIndex chg (startIndex + 3)
           remainingSegments w)"

text \<open>
  The scan of \<open>handleBarItems\<close> over the four bar slots, entered at slot \<open>i\<close>: a
  slot whose occupant carries the UI tag is skipped; at any other slot the player is
  swept, an occupant is spawned at the player, and the scan ends.
\<close>

function handleBarItemsScan :: "Imports \<Rightarrow> int \<Rightarrow> int \<Rightarrow> World \<Rightarrow> World" where
  "handleBarItemsScan I startIndex i w =
     (if i < startIndex + 4
      then (case inventory w i of
              Some inventoryItem \<Rightarrow>
                if isUiItem I inventoryItem then handleBarItemsScan I startIndex (i + 1) w
                else spawnItem (snd (clearUiItemsFromPlayer I w)) inventoryItem
            | None \<Rightarrow> snd (clearUiItemsFromPlayer I w))
      else w)"
  by pat_completeness auto
termination
  by (relation "measure (\<lambda>(I, s, i, w). nat (s + 4 - i))") auto

declare handleBarItemsScan.simps [simp del]

text \<open>
  \<open>ty\<close> and \<open>chg\<close> are the optional arguments \<open>type = "_disabled"\<close> and
  \<open>change = 0\<close>.
\<close>

definition handleBarItems ::
  "Imports \<Rightarrow> DimensionLocation \<Rightarrow> World \<Rightarrow> int \<Rightarrow> string option \<Rightarrow> Number option \<Rightarrow> Outcome" where
  "handleBarItems I location w startIndex ty chg =
     (let ty' = (case ty of None \<Rightarrow> ''_disabled'' | Some t \<Rightarrow> t);
          chg' = (case chg of None \<Rightarrow> Finite 0 0 | Some c \<Rightarrow> c);
          w1 = handleBarItemsScan I startIndex startIndex w
      in if ty' = ''_disabled'' then Inr (fillDisabledUiBar w1 startIndex)
         else (case storageTypeRegistry I ty' of
                 None \<Rightarrow> Inl (StorageTypeDoesNotExist location ty', w1)
               | Some storageTypeOptions \<Rightarrow>
                   Inr (fillUiBar I
                         (''fluffyalien_energisticscore:ui_storage_bar_segment_''
                            @ colorString (color storageTypeOptions))
                         (STORAGE_TYPE_COLOR_TO_FORMATTING_CODE (color storageTypeOptions))
                         (name storageTypeOptions)
                         w1
                         (getMachineStorage I w1 location ty')
                         startIndex
                         chg')))"

section \<open>The item slot\<close>

text \<open>\<open>Array.prototype.indexOf\<close>: the first position of the value, or \<open>-1\<close>.\<close>

fun indexOfFrom :: "'a list \<Rightarrow> 'a \<Rightarrow> int \<Rightarrow> int" where
  "indexOfFrom [] v i = - 1"
| "indexOfFrom (u # us) v i = (if u = v then i else indexOfFrom us v (i + 1))"

definition indexOf :: "'a list \<Rightarrow> 'a \<Rightarrow> int" where
  "indexOf us v = indexOfFrom us v 0"

text \<open>
  \<open>changedSlots?.includes(element.slotId)\<close>: the slot id is among the changed slots
  recorded for this block.
\<close>

definition slotChanged :: "Imports \<Rightarrow> World \<Rightarrow> DimensionLocation \<Rightarrow> UiItemSlotElement \<Rightarrow> bool" where
  "slotChanged I w loc el =
     (case machineChangedItemSlots w (getBlockUniqueId I loc) of
        None \<Rightarrow> False
      | Some changedSlots \<Rightarrow> slotId el \<in> set changedSlots)"

definition handleItemSlot ::
  "Imports \<Rightarrow> DimensionLocation \<Rightarrow> World \<Rightarrow> UiItemSlotElement \<Rightarrow> bool \<Rightarrow> World" where
  "handleItemSlot I loc w el init =
     (let expectedMachineItem = getMachineSlotItem I w loc (slotId el);
          expectedItemStack = machineItemStackToItemStack I el expectedMachineItem
      in if slotChanged I w loc el \<or> init then setItem w (index el) (Some expectedItemStack)
         else (case inventory w (index el) of
                 None \<Rightarrow>
                   (let w1 = snd (clearUiItemsFromPlayer I w);
                        w2 = setMachineSlotItem I w1 loc (slotId el) None False
                    in setItem w2 (index el) (Some (machineItemStackToItemStack I el None)))
               | Some containerItem \<Rightarrow>
                   if isStackableWith containerItem expectedItemStack
                   then (case expectedMachineItem of
                           Some m \<Rightarrow>
                             if amount containerItem \<noteq> amount expectedItemStack
                             then setMachineSlotItem I w loc (slotId el)
                                    (Some \<lparr>typeIndex = typeIndex m, count = amount containerItem\<rparr>)
                                    False
                             else w
                         | None \<Rightarrow> w)
                   else (let w1 = snd (clearUiItemsFromPlayer I w);
                             newTypeIndex = indexOf (allowedItems el) (typeId containerItem)
                         in if newTypeIndex = - 1
                               \<or> \<not> isStackableWith containerItem (newItemStack (typeId containerItem))
                            then (let w2 = setMachineSlotItem I w1 loc (slotId el) None False;
                                      w3 = spawnItem w2 containerItem
                                  in setItem w3 (index el)
                                       (Some (machineItemStackToItemStack I el None)))
                            else setMachineSlotItem I w1 loc (slotId el)
                                   (Some \<lparr>typeIndex = newTypeIndex, count = amount containerItem\<rparr>)
                                   False)))"

section \<open>The progress indicator\<close>

definition isInteger :: "rat \<Rightarrow> bool" where
  "isInteger v \<longleftrightarrow> of_int \<lfloor>v\<rfloor> = v"

text \<open>\<open>v\<close> is the optional argument \<open>value = 0\<close>.\<close>

definition handleProgressIndicator ::
  "Imports \<Rightarrow> World \<Rightarrow> int \<Rightarrow> UiProgressIndicatorElementType \<Rightarrow> rat option \<Rightarrow> Outcome" where
  "handleProgressIndicator I w idx indicator v =
     (let val = (case v of None \<Rightarrow> 0 | Some u \<Rightarrow> u);
          maxValue = PROGRESS_INDICATOR_MAX_VALUES indicator
      in if val < 0 \<or> val > of_int maxValue \<or> \<not> isInteger val
         then Inl (ProgressIndicatorValue indicator val, w)
         else (let w1 = (case inventory w idx of
                           Some inventoryItem \<Rightarrow>
                             if isUiItem I inventoryItem then w
                             else spawnItem (snd (clearUiItemsFromPlayer I w)) inventoryItem
                         | None \<Rightarrow> snd (clearUiItemsFromPlayer I w))
               in Inr (setItem w1 idx
                        (Some (newItemStack
                           (''fluffyalien_energisticscore:ui_progress_'' @ indicatorString indicator
                              @ toString \<lfloor>val\<rfloor>))))))"

section \<open>The reconciliation pass\<close>

text \<open>
  The loop over \<open>result.storageBars\<close>. The table \<open>storageBarChanges\<close> starts as
  the object literal \<open>{}\<close>; the map holds its own properties. The test
  \<open>changeOptions.element in storageBarChanges\<close> succeeds for an own property, whose
  change is then added to, and also for a name inherited from \<open>Object.prototype\<close>: then
  the \<open>+=\<close> lands on the inherited object, and the table is left as it was. (For
  \<open>__proto__\<close> that object is \<open>Object.prototype\<close> itself, which gains a property
  \<open>change\<close>; what follows from that is outside the model.) Any other directive is
  stored.
\<close>

fun mergeStorageBars ::
  "UiStorageBarUpdateOptions list \<Rightarrow> (string \<rightharpoonup> UiStorageBarUpdateOptions)
     \<Rightarrow> (string \<rightharpoonup> UiStorageBarUpdateOptions)" where
  "mergeStorageBars [] storageBarChanges = storageBarChanges"
| "mergeStorageBars (changeOptions # rest) storageBarChanges =
     (case storageBarChanges (element changeOptions) of
        Some stored \<Rightarrow>
          mergeStorageBars rest
            (storageBarChanges(element changeOptions \<mapsto>
               stored\<lparr>change := jsAdd (change stored) (change changeOptions)\<rparr>))
      | None \<Rightarrow>
          if element changeOptions \<in> set objectPrototypeNames
          then mergeStorageBars rest storageBarChanges
          else mergeStorageBars rest
                 (storageBarChanges(element changeOptions \<mapsto> changeOptions)))"

definition storageBarChangesOf ::
  "UpdateUiHandlerResponse \<Rightarrow> (string \<rightharpoonup> UiStorageBarUpdateOptions)" where
  "storageBarChangesOf result =
     (case storageBars result of None \<Rightarrow> Map.empty | Some ds \<Rightarrow> mergeStorageBars ds Map.empty)"

text \<open>The object spread \<open>{...progressIndicators, ...result.progressIndicators}\<close>.\<close>

definition progressIndicatorsOf :: "UpdateUiHandlerResponse \<Rightarrow> (string \<rightharpoonup> rat)" where
  "progressIndicatorsOf result =
     (case progressIndicators result of None \<Rightarrow> Map.empty | Some m \<Rightarrow> Map.empty ++ m)"

text \<open>
  The dispatch on one element. The reads \<open>storageBarChanges[id]\<close> and
  \<open>progressIndicators[id]\<close> find an own property or else, for an inherited name, an
  object of \<open>Object.prototype\<close>. For a storage bar that object has no \<open>type\<close>, so
  the bar is drawn disabled, as it is when nothing is found. For a progress indicator
  that object is the value, and it is not a number.
\<close>

definition renderElement ::
  "Imports \<Rightarrow> DimensionLocation \<Rightarrow> (string \<rightharpoonup> UiStorageBarUpdateOptions) \<Rightarrow> (string \<rightharpoonup> rat)
     \<Rightarrow> bool \<Rightarrow> string \<Rightarrow> UiElement \<Rightarrow> World \<Rightarrow> Outcome" where
  "renderElement I dimensionLocation storageBarChanges progress init ident options w =
     (case options of
        storageBar startIndex \<Rightarrow>
          (case storageBarChanges ident of
             Some changeOptions \<Rightarrow>
               handleBarItems I dimensionLocation w startIndex
                 (Some (barType changeOptions)) (Some (change changeOptions))
           | None \<Rightarrow> handleBarItems I dimensionLocation w startIndex None None)
      | itemSlot el \<Rightarrow> Inr (handleItemSlot I dimensionLocation w el init)
      | progressIndicator indicator idx \<Rightarrow>
          (case progress ident of
             Some v \<Rightarrow> handleProgressIndicator I w idx indicator (Some v)
           | None \<Rightarrow>
               if ident \<in> set objectPrototypeNames
               then Inl (ProgressIndicatorNotANumber indicator ident, w)
               else handleProgressIndicator I w idx indicator None))"

text \<open>The loop over the element table; a throw ends it.\<close>

fun renderElements ::
  "Imports \<Rightarrow> DimensionLocation \<Rightarrow> (string \<rightharpoonup> UiStorageBarUpdateOptions) \<Rightarrow> (string \<rightharpoonup> rat)
     \<Rightarrow> bool \<Rightarrow> (string \<times> UiElement) list \<Rightarrow> World \<Rightarrow> Outcome" where
  "renderElements I dimensionLocation storageBarChanges progress init [] w = Inr w"
| "renderElements I dimensionLocation storageBarChanges progress init ((ident, options) # rest) w =
     (case renderElement I dimensionLocation storageBarChanges progress init ident options w of
        Inl thrown \<Rightarrow> Inl thrown
      | Inr w' \<Rightarrow> renderElements I dimensionLocation storageBarChanges progress init rest w')"


text \<open>
  \<open>updateEntityUi\<close>. The pass starts in the world \<open>w0\<close>, where it tests the
  definition (a missing element table, or a missing or empty handler name, throws) and
  reads the entity's location (the floor of each coordinate), and is suspended in
  \<open>callUpdateUiHandler\<close>; it resumes with the handler's \<open>result\<close> in the world
  \<open>w\<close> of that later moment.
\<close>

definition blockLocationOf :: "World \<Rightarrow> DimensionLocation" where
  "blockLocationOf w0 =
     (case entityLocation w0 of
        (ex, ey, ez) \<Rightarrow>
          \<lparr>blockX = \<lfloor>ex\<rfloor>, blockY = \<lfloor>ey\<rfloor>, blockZ = \<lfloor>ez\<rfloor>,
           dimension = entityDimension w0\<rparr>)"

definition updateEntityUi ::
  "Imports \<Rightarrow> InternalRegisteredMachine \<Rightarrow> World \<Rightarrow> UpdateUiHandlerResponse \<Rightarrow> World \<Rightarrow> bool
     \<Rightarrow> Outcome" where
  "updateEntityUi I definition w0 result w init =
     (case uiElements definition of
        None \<Rightarrow> Inl (NoUiDefined (machineId definition), w0)
      | Some elements \<Rightarrow>
          (case updateUiEvent definition of
             None \<Rightarrow> Inl (MissingUpdateUiHandler (machineId definition), w0)
           | Some handler \<Rightarrow>
               if handler = '''' then Inl (MissingUpdateUiHandler (machineId definition), w0)
               else
               (let dimensionLocation = blockLocationOf w0
                in if \<not> entityValid w then Inr w
                   else (case renderElements I dimensionLocation (storageBarChangesOf result)
                                (progressIndicatorsOf result) init elements w of
                           Inl thrown \<Rightarrow> Inl thrown
                         | Inr w' \<Rightarrow> Inr (w'\<lparr>machineChangedItemSlots := Map.empty\<rparr>)))))"

section \<open>Vocabulary for the properties\<close>

text \<open>A slot of the player after the sweep: a UI-tagged occupant is gone, any other stays.\<close>

definition withoutUiItem :: "Imports \<Rightarrow> ItemStack option \<Rightarrow> ItemStack option" where
  "withoutUiItem I slot =
     (case slot of None \<Rightarrow> None | Some item \<Rightarrow> if isUiItem I item then None else Some item)"







text \<open>
  What is assumed of \<open>machineItemStackToItemStack\<close> where a property depends on it: for
  a logical item whose count is the amount of the stack now in the container slot, the
  stack built has that amount; the kind of the stack built does not depend on the count;
  and for a type index within \<open>allowedItems\<close> the stack built stacks with a fresh stack
  of that kind.
\<close>

definition rendersLogicalItems :: "Imports \<Rightarrow> UiItemSlotElement \<Rightarrow> ItemStack option \<Rightarrow> bool" where
  "rendersLogicalItems I el occupant \<longleftrightarrow>
     (\<forall>item i. occupant = Some item \<longrightarrow>
        amount (machineItemStackToItemStack I el (Some \<lparr>typeIndex = i, count = amount item\<rparr>))
          = amount item)
     \<and> (\<forall>m c. isStackableWith (machineItemStackToItemStack I el (Some m))
                (machineItemStackToItemStack I el (Some (m\<lparr>count := c\<rparr>))))
     \<and> (\<forall>i c. 0 \<le> i \<and> i < int (length (allowedItems el)) \<longrightarrow>
           isStackableWith (machineItemStackToItemStack I el (Some \<lparr>typeIndex = i, count = c\<rparr>))
             (newItemStack (allowedItems el ! nat i)))"

section \<open>A sample machine\<close>

text \<open>
  Modelled from the spec: a stand-in for \<open>machineItemStackToItemStack\<close> of \<open>data\<close>,
  which is not among the sources. The item representing a logical item is a fresh stack
  of the kind \<open>allowedItems[typeIndex]\<close> with the logical count; an empty logical slot
  is represented by the empty-slot placeholder.
\<close>

definition sampleItemStack :: "UiItemSlotElement \<Rightarrow> MachineItemStack option \<Rightarrow> ItemStack" where
  "sampleItemStack el machineItem =
     (case machineItem of
        None \<Rightarrow> newItemStack ''fluffyalien_energisticscore:ui_empty_slot''
      | Some m \<Rightarrow>
          \<lparr>typeId = (if 0 \<le> typeIndex m \<and> typeIndex m < int (length (allowedItems el))
                      then allowedItems el ! nat (typeIndex m) else ''undefined''),
           amount = count m, nameTag = None\<rparr>)"

definition sampleImports :: Imports where
  "sampleImports =
     \<lparr>hasUiItemTag = (\<lambda>t. take 31 t = ''fluffyalien_energisticscore:ui_''),
      truncateNumber = (\<lambda>v d. case v of Finite m e \<Rightarrow> toString m @ ''e'' @ toString e
                                      | NaN \<Rightarrow> ''NaN'' | Infinity \<Rightarrow> ''Infinity''
                                      | NegInfinity \<Rightarrow> ''-Infinity''),
      getBlockUniqueId = (\<lambda>loc. toString (blockX loc) @ '','' @ toString (blockY loc) @ '',''
                                 @ toString (blockZ loc) @ '','' @ dimension loc),
      machineItemStackToItemStack = sampleItemStack,
      storageTypeRegistry =
        [''energy'' \<mapsto> \<lparr>category = ''energy'', color = yellow, name = ''Energy''\<rparr>]\<rparr>"

definition sampleWorld :: World where
  "sampleWorld =
     \<lparr>inventory = (\<lambda>i. None),
      entityValid = True,
      entityLocation = (1 / 2, 64, - 3 / 2),
      entityDimension = ''overworld'',
      cursorItem = None,
      playerInventory = [Some (newItemStack ''minecraft:coal''),
                         Some (newItemStack ''fluffyalien_energisticscore:ui_empty_slot''), None],
      playerLocation = (2, 64, 0),
      playerDimension = ''overworld'',
      slotItems = (\<lambda>k. None),
      machineStorage = [(''0,64,-2,overworld'', ''energy'') \<mapsto> 250],
      machineChangedItemSlots = Map.empty,
      effects = []\<rparr>"

definition sampleLocation :: DimensionLocation where
  "sampleLocation = \<lparr>blockX = 0, blockY = 64, blockZ = - 2, dimension = ''overworld''\<rparr>"

definition sampleSlot :: UiItemSlotElement where
  "sampleSlot = \<lparr>index = 4, slotId = 0, allowedItems = [''minecraft:coal'', ''minecraft:charcoal'']\<rparr>"

text \<open>
  The sample world after drift: slot 4 holds a foreign item, and changed slots are
  recorded for the sample block and for another block.
\<close>

definition driftedWorld :: World where
  "driftedWorld =
     sampleWorld\<lparr>inventory := [4 \<mapsto> newItemStack ''minecraft:dirt''],
       machineChangedItemSlots := [''0,64,-2,overworld'' \<mapsto> [0], ''9,9,9,nether'' \<mapsto> [1, 2]]\<rparr>"


definition sampleResponse :: UpdateUiHandlerResponse where
  "sampleResponse =
     \<lparr>storageBars = Some [\<lparr>element = ''energyBar'', barType = ''energy'', change = Finite 5 0\<rparr>,
                           \<lparr>element = ''energyBar'', barType = ''energy'', change = Finite (- 1) 1\<rparr>],
      progressIndicators = Some [''burn'' \<mapsto> 7]\<rparr>"



definition sampleMachine :: InternalRegisteredMachine where
  "sampleMachine =
     \<lparr>machineId = ''example:generator'',
      uiElements = Some [(''energyBar'', storageBar 0), (''fuel'', itemSlot sampleSlot),
                         (''burn'', progressIndicator flame 5)],
      updateUiEvent = Some ''example:generator__updateUiHandler''\<rparr>"

section \<open>Facts about the sample machine\<close>

lemmas sample_defs = sampleImports_def sampleWorld_def driftedWorld_def sampleLocation_def
  sampleSlot_def sampleItemStack_def sampleMachine_def sampleResponse_def

lemma sampleUid: "getBlockUniqueId sampleImports sampleLocation = ''0,64,-2,overworld''"
  by (simp add: sampleImports_def sampleLocation_def toString_def natToString.simps digitChar_def)

lemma sample_rendersLogicalItems: "rendersLogicalItems sampleImports sampleSlot occupant"
  by (auto simp: rendersLogicalItems_def sampleImports_def sampleItemStack_def sampleSlot_def
      isStackableWith_def newItemStack_def)

section \<open>Properties of the storage bar fill\<close>

lemma fillUiBarLoop_step:
  "startIndex \<le> i \<Longrightarrow>
   fillUiBarLoop I b l n a startIndex c i r w =
   fillUiBarLoop I b l n a startIndex c (i - 1) (r - min 16 r)
     (setItem w i (Some (segmentItem I b l n a c (min 16 r))))"
  by (subst fillUiBarLoop.simps) (simp add: Let_def)

lemma fillUiBarLoop_stop:
  "i < startIndex \<Longrightarrow> fillUiBarLoop I b l n a startIndex c i r w = w"
  by (subst fillUiBarLoop.simps) simp

lemma fillUiBar_unfold:
  "fillUiBar I b l n w a s c =
   (let q = a div 100; n3 = min 16 q; n2 = min 16 (q - n3); n1 = min 16 (q - n3 - n2);
        n0 = min 16 (q - n3 - n2 - n1)
    in setItem (setItem (setItem (setItem w (s + 3) (Some (segmentItem I b l n a c n3)))
         (s + 2) (Some (segmentItem I b l n a c n2)))
         (s + 1) (Some (segmentItem I b l n a c n1)))
         s (Some (segmentItem I b l n a c n0)))"
  by (simp add: fillUiBar_def STORAGE_AMOUNT_PER_BAR_SEGMENT_def Let_def
      fillUiBarLoop_step fillUiBarLoop_stop add.commute)

lemma segment_counts:
  fixes q :: int
  assumes "0 \<le> q" and "q \<le> 64"
  shows "let n3 = min 16 q; n2 = min 16 (q - n3); n1 = min 16 (q - n3 - n2);
             n0 = min 16 (q - n3 - n2 - n1)
         in n0 + n1 + n2 + n3 = q \<and> 0 \<le> n0 \<and> n0 \<le> n1 \<and> n1 \<le> n2 \<and> n2 \<le> n3 \<and> n3 \<le> 16"
  using assms by (auto simp: Let_def min_def)

text \<open>
  C1. For a stored amount \<open>a\<close> with \<open>0 \<le> a \<le> 6400\<close> and any start index \<open>s\<close>,
  \<open>fillUiBar\<close> writes the four slots \<open>s + 3\<close>, \<open>s + 2\<close>, \<open>s + 1\<close>, \<open>s\<close> in
  that order and nothing else. The stack written to a slot has the segment count as the
  suffix of its kind; the four counts \<open>n3\<close>, \<open>n2\<close>, \<open>n1\<close>, \<open>n0\<close> add up to
  \<open>a div 100\<close>, do not increase from slot \<open>s + 3\<close> down to slot \<open>s\<close>, and are at
  most 16 each.
\<close>

theorem fillUiBar_segments:
  assumes "0 \<le> a" and "a \<le> 6400"
  shows "let q = a div 100; n3 = min 16 q; n2 = min 16 (q - n3); n1 = min 16 (q - n3 - n2);
             n0 = min 16 (q - n3 - n2 - n1)
         in fillUiBar I b l n w a s c =
              setItem (setItem (setItem (setItem w (s + 3) (Some (segmentItem I b l n a c n3)))
                (s + 2) (Some (segmentItem I b l n a c n2)))
                (s + 1) (Some (segmentItem I b l n a c n1)))
                s (Some (segmentItem I b l n a c n0))
            \<and> (\<forall>k. typeId (segmentItem I b l n a c k) = b @ toString k)
            \<and> n0 + n1 + n2 + n3 = a div 100
            \<and> 0 \<le> n0 \<and> n0 \<le> n1 \<and> n1 \<le> n2 \<and> n2 \<le> n3 \<and> n3 \<le> 16"
proof -
  have q: "0 \<le> a div 100" "a div 100 \<le> 64"
    using assms by auto
  have ty: "typeId (segmentItem I b l n a c k) = b @ toString k" for k
    by (simp add: segmentItem_def newItemStack_def Let_def)
  show ?thesis
    using segment_counts[OF q] fillUiBar_unfold[of I b l n w a s c] ty
    by (simp add: Let_def)
qed

theorem fillUiBar_segments_witness:
  "(0::int) \<le> 250 \<and> (250::int) \<le> 6400
   \<and> fillUiBar sampleImports ''bar'' ''e'' ''Energy'' sampleWorld 250 0 (Finite 0 0) =
       setItem (setItem (setItem (setItem sampleWorld 3
           (Some (segmentItem sampleImports ''bar'' ''e'' ''Energy'' 250 (Finite 0 0) 2)))
         2 (Some (segmentItem sampleImports ''bar'' ''e'' ''Energy'' 250 (Finite 0 0) 0)))
         1 (Some (segmentItem sampleImports ''bar'' ''e'' ''Energy'' 250 (Finite 0 0) 0)))
         0 (Some (segmentItem sampleImports ''bar'' ''e'' ''Energy'' 250 (Finite 0 0) 0))
   \<and> segmentItem sampleImports ''bar'' ''e'' ''Energy'' 250 (Finite 0 0) 2 =
       \<lparr>typeId = ''bar2'', amount = 1,
        nameTag = Some ([sectionSign] @ ''r'' @ [sectionSign] @ ''e250/6400 Energy'')\<rparr>"
proof -
  have h1: "(0::int) \<le> 250" and h2: "(250::int) \<le> 6400"
    by simp_all
  have "segmentItem sampleImports ''bar'' ''e'' ''Energy'' 250 (Finite 0 0) 2 =
       \<lparr>typeId = ''bar2'', amount = 1,
        nameTag = Some ([sectionSign] @ ''r'' @ [sectionSign] @ ''e250/6400 Energy'')\<rparr>"
    by (simp add: segmentItem_def newItemStack_def Let_def toString_def natToString.simps
        digitChar_def MAX_MACHINE_STORAGE_def STORAGE_AMOUNT_PER_BAR_SEGMENT_def)
  then show ?thesis
    using fillUiBar_segments [OF h1 h2, of sampleImports "''bar''" "''e''" "''Energy''" sampleWorld 0
        "Finite 0 0"]
    by (simp add: Let_def)
qed

section \<open>Properties of the player sweep\<close>

lemma clearUiItemsLoop_eq:
  "i \<le> length xs \<Longrightarrow>
   clearUiItemsLoop I i c xs =
     (c \<or> (\<exists>item \<in> set (drop i xs). withoutUiItem I item \<noteq> item),
      take i xs @ map (withoutUiItem I) (drop i xs))"
proof (induction I i c xs rule: clearUiItemsLoop.induct)
  case (1 I i c xs)
  show ?case
  proof (cases "i < length xs")
    case False
    with "1.prems" show ?thesis by (subst clearUiItemsLoop.simps) simp
  next
    case True
    then have d: "drop i xs = xs ! i # drop (Suc i) xs"
      by (simp add: Cons_nth_drop_Suc)
    have t: "take (Suc i) xs = take i xs @ [xs ! i]"
      using True by (simp add: take_Suc_conv_app_nth)
    show ?thesis
    proof (cases "xs ! i")
      case None
      have "clearUiItemsLoop I (i + 1) c xs =
            (c \<or> (\<exists>item \<in> set (drop (i + 1) xs). withoutUiItem I item \<noteq> item),
             take (i + 1) xs @ map (withoutUiItem I) (drop (i + 1) xs))"
        using "1.IH"(1)[OF True None] True by simp
      then show ?thesis
        using True d t None
        by (subst clearUiItemsLoop.simps) (simp add: withoutUiItem_def)
    next
      case (Some item)
      show ?thesis
      proof (cases "isUiItem I item")
        case False
        have "clearUiItemsLoop I (i + 1) c xs =
            (c \<or> (\<exists>item \<in> set (drop (i + 1) xs). withoutUiItem I item \<noteq> item),
             take (i + 1) xs @ map (withoutUiItem I) (drop (i + 1) xs))"
          using "1.IH"(3)[OF True Some False] True by simp
        then show ?thesis
          using True d t Some False
          by (subst clearUiItemsLoop.simps) (simp add: withoutUiItem_def)
      next
        case ui: True
        have "clearUiItemsLoop I (i + 1) True (xs[i := None]) =
              (True, take (i + 1) (xs[i := None]) @ map (withoutUiItem I) (drop (i + 1) (xs[i := None])))"
          using "1.IH"(2)[OF True Some ui] True by simp
        moreover have "take (i + 1) (xs[i := None]) = take i xs @ [None]"
          using True by (simp add: take_Suc_conv_app_nth)
        ultimately show ?thesis
          using True d Some ui
          by (subst clearUiItemsLoop.simps) (simp add: withoutUiItem_def)
      qed
    qed
  qed
qed

lemma clearUiItemsFromPlayer_world:
  "snd (clearUiItemsFromPlayer I w) =
     w\<lparr>cursorItem := withoutUiItem I (cursorItem w),
       playerInventory := map (withoutUiItem I) (playerInventory w),
       effects := effects w @ [ClearUiItems]\<rparr>"
  by (simp add: clearUiItemsFromPlayer_def clearUiItemsLoop_eq withoutUiItem_def Let_def
      split: option.splits prod.splits)

section \<open>Properties of the item slot renderer\<close>

lemma indexOfFrom_notin: "v \<notin> set us \<Longrightarrow> indexOfFrom us v i = - 1"
  by (induction us arbitrary: i) auto

lemma indexOfFrom_in:
  "v \<in> set us \<Longrightarrow>
   i \<le> indexOfFrom us v i \<and> indexOfFrom us v i < i + int (length us)
   \<and> us ! nat (indexOfFrom us v i - i) = v
   \<and> (\<forall>k < nat (indexOfFrom us v i - i). us ! k \<noteq> v)"
proof (induction us arbitrary: i)
  case Nil
  then show ?case by simp
next
  case (Cons u us)
  show ?case
  proof (cases "u = v")
    case True
    then show ?thesis by simp
  next
    case False
    with Cons.prems have "v \<in> set us" by simp
    from Cons.IH[OF this, of "i + 1"]
    have ih: "i + 1 \<le> indexOfFrom us v (i + 1)"
      "indexOfFrom us v (i + 1) < i + 1 + int (length us)"
      "us ! nat (indexOfFrom us v (i + 1) - (i + 1)) = v"
      "\<forall>k < nat (indexOfFrom us v (i + 1) - (i + 1)). us ! k \<noteq> v"
      by simp_all
    have n: "nat (indexOfFrom us v (i + 1) - i) = Suc (nat (indexOfFrom us v (i + 1) - (i + 1)))"
      using ih(1) by linarith
    show ?thesis
      using False ih n by (auto simp: nth_Cons split: nat.splits)
  qed
qed

lemma indexOf_minus_one: "indexOf us v = - 1 \<longleftrightarrow> v \<notin> set us"
proof
  assume "indexOf us v = - 1"
  then show "v \<notin> set us"
    using indexOfFrom_in[of v us 0] by (auto simp: indexOf_def)
next
  assume "v \<notin> set us"
  then show "indexOf us v = - 1"
    by (simp add: indexOf_def indexOfFrom_notin)
qed

lemma indexOf_found:
  assumes "v \<in> set us"
  shows "0 \<le> indexOf us v" and "indexOf us v < int (length us)"
    and "us ! nat (indexOf us v) = v" and "\<forall>k < nat (indexOf us v). us ! k \<noteq> v"
  using indexOfFrom_in[OF assms, of 0] by (simp_all add: indexOf_def)

lemma isStackableWith_refl: "isStackableWith a a"
  by (simp add: isStackableWith_def)

lemma isStackableWith_sym: "isStackableWith a b \<Longrightarrow> isStackableWith b a"
  by (simp add: isStackableWith_def)

lemma isStackableWith_trans: "isStackableWith a b \<Longrightarrow> isStackableWith b c \<Longrightarrow> isStackableWith a c"
  by (simp add: isStackableWith_def)

lemma handleItemSlot_empty_slot:
  assumes "\<not> slotChanged I w loc el" and "inventory w (index el) = None"
  shows "handleItemSlot I loc w el False =
     w\<lparr>inventory := (inventory w)(index el \<mapsto> machineItemStackToItemStack I el None),
       cursorItem := withoutUiItem I (cursorItem w),
       playerInventory := map (withoutUiItem I) (playerInventory w),
       slotItems := (slotItems w)((getBlockUniqueId I loc, slotId el) := None),
       effects := effects w @
         [ClearUiItems,
          SetMachineSlotItem (getBlockUniqueId I loc) (slotId el) None False,
          SetItem (index el) (Some (machineItemStackToItemStack I el None))]\<rparr>"
  using assms
  by (simp add: handleItemSlot_def setItem_def setMachineSlotItem_def Let_def
      clearUiItemsFromPlayer_world)

lemma handleItemSlot_reject:
  assumes "\<not> slotChanged I w loc el" and "inventory w (index el) = Some item"
    and "\<not> isStackableWith item
            (machineItemStackToItemStack I el (getMachineSlotItem I w loc (slotId el)))"
    and "indexOf (allowedItems el) (typeId item) = - 1
           \<or> \<not> isStackableWith item (newItemStack (typeId item))"
  shows "handleItemSlot I loc w el False =
     w\<lparr>inventory := (inventory w)(index el \<mapsto> machineItemStackToItemStack I el None),
       cursorItem := withoutUiItem I (cursorItem w),
       playerInventory := map (withoutUiItem I) (playerInventory w),
       slotItems := (slotItems w)((getBlockUniqueId I loc, slotId el) := None),
       effects := effects w @
         [ClearUiItems,
          SetMachineSlotItem (getBlockUniqueId I loc) (slotId el) None False,
          SpawnItem item (playerDimension w) (playerLocation w),
          SetItem (index el) (Some (machineItemStackToItemStack I el None))]\<rparr>"
  using assms
  by (simp add: handleItemSlot_def setMachineSlotItem_def setItem_def spawnItem_def Let_def
      clearUiItemsFromPlayer_world getMachineSlotItem_def)

lemma handleItemSlot_accept:
  assumes "\<not> slotChanged I w loc el" and "inventory w (index el) = Some item"
    and "\<not> isStackableWith item
            (machineItemStackToItemStack I el (getMachineSlotItem I w loc (slotId el)))"
    and "indexOf (allowedItems el) (typeId item) \<noteq> - 1"
    and "isStackableWith item (newItemStack (typeId item))"
  shows "handleItemSlot I loc w el False =
     w\<lparr>cursorItem := withoutUiItem I (cursorItem w),
       playerInventory := map (withoutUiItem I) (playerInventory w),
       slotItems := (slotItems w)((getBlockUniqueId I loc, slotId el) :=
          Some \<lparr>typeIndex = indexOf (allowedItems el) (typeId item), count = amount item\<rparr>),
       effects := effects w @
         [ClearUiItems,
          SetMachineSlotItem (getBlockUniqueId I loc) (slotId el)
            (Some \<lparr>typeIndex = indexOf (allowedItems el) (typeId item), count = amount item\<rparr>)
            False]\<rparr>"
  using assms
  by (simp add: handleItemSlot_def setMachineSlotItem_def Let_def
      clearUiItemsFromPlayer_world getMachineSlotItem_def)

lemma handleItemSlot_count_update:
  assumes "\<not> slotChanged I w loc el" and "inventory w (index el) = Some item"
    and "getMachineSlotItem I w loc (slotId el) = Some m"
    and "isStackableWith item (machineItemStackToItemStack I el (Some m))"
    and "amount item \<noteq> amount (machineItemStackToItemStack I el (Some m))"
  shows "handleItemSlot I loc w el False =
     w\<lparr>slotItems := (slotItems w)((getBlockUniqueId I loc, slotId el) :=
          Some \<lparr>typeIndex = typeIndex m, count = amount item\<rparr>),
       effects := effects w @
         [SetMachineSlotItem (getBlockUniqueId I loc) (slotId el)
            (Some \<lparr>typeIndex = typeIndex m, count = amount item\<rparr>) False]\<rparr>"
  using assms
  by (simp add: handleItemSlot_def setMachineSlotItem_def Let_def)

lemma handleItemSlot_settled:
  assumes "\<not> slotChanged I w loc el" and "inventory w (index el) = Some item"
    and "isStackableWith item
            (machineItemStackToItemStack I el (getMachineSlotItem I w loc (slotId el)))"
    and "getMachineSlotItem I w loc (slotId el) = None
         \<or> amount item
            = amount (machineItemStackToItemStack I el (getMachineSlotItem I w loc (slotId el)))"
  shows "handleItemSlot I loc w el False = w"
  using assms
  by (auto simp: handleItemSlot_def Let_def split: option.splits)

text \<open>
  C2. When the element's slot id is among the changed slots of the block, or the call is
  the initial one, \<open>handleItemSlot\<close> writes the stack for the logical slot content
  (the placeholder, when the logical slot is empty) into the container slot at the
  element's index, whatever that slot held, and does nothing else: the ledger, the
  player and every other slot are as before, and the write is the call's only effect.
\<close>

theorem handleItemSlot_forced:
  assumes "slotChanged I w loc el \<or> init"
  shows "handleItemSlot I loc w el init =
     w\<lparr>inventory := (inventory w)(index el \<mapsto>
          machineItemStackToItemStack I el (getMachineSlotItem I w loc (slotId el))),
       effects := effects w @
         [SetItem (index el)
            (Some (machineItemStackToItemStack I el (getMachineSlotItem I w loc (slotId el))))]\<rparr>"
  using assms by (auto simp: handleItemSlot_def setItem_def Let_def)

theorem handleItemSlot_forced_witness:
  "(slotChanged sampleImports driftedWorld sampleLocation sampleSlot \<or> False) \<and>
   handleItemSlot sampleImports sampleLocation driftedWorld sampleSlot False =
     driftedWorld\<lparr>inventory := (inventory driftedWorld)(4 \<mapsto>
          newItemStack ''fluffyalien_energisticscore:ui_empty_slot''),
       effects := [SetItem 4 (Some (newItemStack ''fluffyalien_energisticscore:ui_empty_slot''))]\<rparr>"
proof -
  have h: "slotChanged sampleImports driftedWorld sampleLocation sampleSlot \<or> False"
    by (simp add: slotChanged_def sampleUid) (simp add: sample_defs)
  show ?thesis
    using h handleItemSlot_forced [OF h]
    by (simp add: getMachineSlotItem_def sampleUid) (simp add: sample_defs)
qed

text \<open>
  C4. A call that is not forced and finds the container slot empty sweeps the UI-tagged
  items from the player's cursor and inventory, writes the logical slot as empty with
  notify off, and puts the placeholder into the container slot. These three are all its
  effects, in this order: no item is spawned.
\<close>

theorem handleItemSlot_player_cleared:
  assumes "\<not> slotChanged I w loc el" and "\<not> init" and "inventory w (index el) = None"
  shows "handleItemSlot I loc w el init =
     w\<lparr>inventory := (inventory w)(index el \<mapsto> machineItemStackToItemStack I el None),
       cursorItem := withoutUiItem I (cursorItem w),
       playerInventory := map (withoutUiItem I) (playerInventory w),
       slotItems := (slotItems w)((getBlockUniqueId I loc, slotId el) := None),
       effects := effects w @
         [ClearUiItems,
          SetMachineSlotItem (getBlockUniqueId I loc) (slotId el) None False,
          SetItem (index el) (Some (machineItemStackToItemStack I el None))]\<rparr>"
  using assms
  by (simp add: handleItemSlot_def setItem_def setMachineSlotItem_def Let_def
      clearUiItemsFromPlayer_world)

theorem handleItemSlot_player_cleared_witness:
  "\<not> slotChanged sampleImports sampleWorld sampleLocation sampleSlot \<and> \<not> False
   \<and> inventory sampleWorld (index sampleSlot) = None
   \<and> handleItemSlot sampleImports sampleLocation sampleWorld sampleSlot False =
     sampleWorld\<lparr>inventory := [4 \<mapsto> newItemStack ''fluffyalien_energisticscore:ui_empty_slot''],
       playerInventory := [Some (newItemStack ''minecraft:coal''), None, None],
       effects :=
         [ClearUiItems,
          SetMachineSlotItem ''0,64,-2,overworld'' 0 None False,
          SetItem 4 (Some (newItemStack ''fluffyalien_energisticscore:ui_empty_slot''))]\<rparr>"
proof -
  have h1: "\<not> slotChanged sampleImports sampleWorld sampleLocation sampleSlot"
    by (simp add: slotChanged_def sampleUid) (simp add: sample_defs)
  have h2: "\<not> False" by simp
  have h3: "inventory sampleWorld (index sampleSlot) = None"
    by (simp add: sample_defs)
  show ?thesis
    using h1 h3 handleItemSlot_player_cleared [OF h1 h2 h3]
    by (simp add: sampleUid) (simp add: sample_defs withoutUiItem_def isUiItem_def newItemStack_def)
qed

text \<open>
  C3. A call that is not forced and finds in the container slot an item that does not
  stack with the expected one: if the item's kind is among \<open>allowedItems\<close> and the
  item stacks with a fresh stack of its own kind, the logical slot becomes the first
  matching index with the visible amount (notify off), the container is left alone and
  nothing is spawned; otherwise the logical slot is written empty (notify off), the item
  itself is spawned in the player's dimension at the player's location, and the
  placeholder is put into the container slot.
\<close>

theorem handleItemSlot_incompatible:
  assumes "\<not> slotChanged I w loc el" and "\<not> init"
    and "inventory w (index el) = Some item"
    and "\<not> isStackableWith item
            (machineItemStackToItemStack I el (getMachineSlotItem I w loc (slotId el)))"
  shows "(typeId item \<in> set (allowedItems el) \<and> isStackableWith item (newItemStack (typeId item)) \<longrightarrow>
            (\<exists>j. 0 \<le> j \<and> j < int (length (allowedItems el))
               \<and> allowedItems el ! nat j = typeId item
               \<and> (\<forall>k < nat j. allowedItems el ! k \<noteq> typeId item)
               \<and> handleItemSlot I loc w el init =
                   w\<lparr>cursorItem := withoutUiItem I (cursorItem w),
                     playerInventory := map (withoutUiItem I) (playerInventory w),
                     slotItems := (slotItems w)((getBlockUniqueId I loc, slotId el) :=
                                    Some \<lparr>typeIndex = j, count = amount item\<rparr>),
                     effects := effects w @
                       [ClearUiItems,
                        SetMachineSlotItem (getBlockUniqueId I loc) (slotId el)
                          (Some \<lparr>typeIndex = j, count = amount item\<rparr>) False]\<rparr>))
       \<and> (\<not> (typeId item \<in> set (allowedItems el) \<and> isStackableWith item (newItemStack (typeId item))) \<longrightarrow>
            handleItemSlot I loc w el init =
              w\<lparr>inventory := (inventory w)(index el \<mapsto> machineItemStackToItemStack I el None),
                cursorItem := withoutUiItem I (cursorItem w),
                playerInventory := map (withoutUiItem I) (playerInventory w),
                slotItems := (slotItems w)((getBlockUniqueId I loc, slotId el) := None),
                effects := effects w @
                  [ClearUiItems,
                   SetMachineSlotItem (getBlockUniqueId I loc) (slotId el) None False,
                   SpawnItem item (playerDimension w) (playerLocation w),
                   SetItem (index el) (Some (machineItemStackToItemStack I el None))]\<rparr>)"
proof (intro conjI impI)
  assume ok: "typeId item \<in> set (allowedItems el) \<and> isStackableWith item (newItemStack (typeId item))"
  define j where "j = indexOf (allowedItems el) (typeId item)"
  have j: "0 \<le> j" "j < int (length (allowedItems el))" "allowedItems el ! nat j = typeId item"
    "\<forall>k < nat j. allowedItems el ! k \<noteq> typeId item"
    using indexOf_found[of "typeId item" "allowedItems el"] ok unfolding j_def by simp_all
  have "j \<noteq> - 1" using j(1) by simp
  then have "handleItemSlot I loc w el init =
                   w\<lparr>cursorItem := withoutUiItem I (cursorItem w),
                     playerInventory := map (withoutUiItem I) (playerInventory w),
                     slotItems := (slotItems w)((getBlockUniqueId I loc, slotId el) :=
                                    Some \<lparr>typeIndex = j, count = amount item\<rparr>),
                     effects := effects w @
                       [ClearUiItems,
                        SetMachineSlotItem (getBlockUniqueId I loc) (slotId el)
                          (Some \<lparr>typeIndex = j, count = amount item\<rparr>) False]\<rparr>"
    using assms ok unfolding j_def
    by (simp add: handleItemSlot_def setMachineSlotItem_def Let_def
        clearUiItemsFromPlayer_world getMachineSlotItem_def)
  with j show "\<exists>j. 0 \<le> j \<and> j < int (length (allowedItems el))
               \<and> allowedItems el ! nat j = typeId item
               \<and> (\<forall>k < nat j. allowedItems el ! k \<noteq> typeId item)
               \<and> handleItemSlot I loc w el init =
                   w\<lparr>cursorItem := withoutUiItem I (cursorItem w),
                     playerInventory := map (withoutUiItem I) (playerInventory w),
                     slotItems := (slotItems w)((getBlockUniqueId I loc, slotId el) :=
                                    Some \<lparr>typeIndex = j, count = amount item\<rparr>),
                     effects := effects w @
                       [ClearUiItems,
                        SetMachineSlotItem (getBlockUniqueId I loc) (slotId el)
                          (Some \<lparr>typeIndex = j, count = amount item\<rparr>) False]\<rparr>"
    by blast
next
  assume bad: "\<not> (typeId item \<in> set (allowedItems el) \<and> isStackableWith item (newItemStack (typeId item)))"
  then have "indexOf (allowedItems el) (typeId item) = - 1
             \<or> \<not> isStackableWith item (newItemStack (typeId item))"
    by (auto simp: indexOf_minus_one)
  then show "handleItemSlot I loc w el init =
              w\<lparr>inventory := (inventory w)(index el \<mapsto> machineItemStackToItemStack I el None),
                cursorItem := withoutUiItem I (cursorItem w),
                playerInventory := map (withoutUiItem I) (playerInventory w),
                slotItems := (slotItems w)((getBlockUniqueId I loc, slotId el) := None),
                effects := effects w @
                  [ClearUiItems,
                   SetMachineSlotItem (getBlockUniqueId I loc) (slotId el) None False,
                   SpawnItem item (playerDimension w) (playerLocation w),
                   SetItem (index el) (Some (machineItemStackToItemStack I el None))]\<rparr>"
    using assms
    by (simp add: handleItemSlot_def setMachineSlotItem_def setItem_def spawnItem_def Let_def
        clearUiItemsFromPlayer_world getMachineSlotItem_def)
qed

theorem handleItemSlot_incompatible_witness:
  "(let w = sampleWorld\<lparr>inventory := [4 \<mapsto> \<lparr>typeId = ''minecraft:charcoal'', amount = 3, nameTag = None\<rparr>]\<rparr>
    in handleItemSlot sampleImports sampleLocation w sampleSlot False =
         w\<lparr>playerInventory := [Some (newItemStack ''minecraft:coal''), None, None],
           slotItems := (slotItems w)((''0,64,-2,overworld'', 0) := Some \<lparr>typeIndex = 1, count = 3\<rparr>),
           effects := [ClearUiItems,
                       SetMachineSlotItem ''0,64,-2,overworld'' 0 (Some \<lparr>typeIndex = 1, count = 3\<rparr>) False]\<rparr>)
   \<and> (let w = sampleWorld\<lparr>inventory := [4 \<mapsto> newItemStack ''minecraft:dirt'']\<rparr>
      in handleItemSlot sampleImports sampleLocation w sampleSlot False =
         w\<lparr>inventory := [4 \<mapsto> newItemStack ''fluffyalien_energisticscore:ui_empty_slot''],
           playerInventory := [Some (newItemStack ''minecraft:coal''), None, None],
           effects := [ClearUiItems,
                       SetMachineSlotItem ''0,64,-2,overworld'' 0 None False,
                       SpawnItem (newItemStack ''minecraft:dirt'') ''overworld'' (2, 64, 0),
                       SetItem 4 (Some (newItemStack ''fluffyalien_energisticscore:ui_empty_slot''))]\<rparr>)"
proof -
  define wa where "wa = sampleWorld\<lparr>inventory := [4 \<mapsto> \<lparr>typeId = ''minecraft:charcoal'', amount = 3, nameTag = None\<rparr>]\<rparr>"
  define wr where "wr = sampleWorld\<lparr>inventory := [4 \<mapsto> newItemStack ''minecraft:dirt'']\<rparr>"
  define charcoal where "charcoal = \<lparr>typeId = ''minecraft:charcoal'', amount = 3, nameTag = None\<rparr>"
  have a1: "\<not> slotChanged sampleImports wa sampleLocation sampleSlot"
    by (simp add: slotChanged_def sampleUid) (simp add: wa_def sample_defs)
  have r1: "\<not> slotChanged sampleImports wr sampleLocation sampleSlot"
    by (simp add: slotChanged_def sampleUid) (simp add: wr_def sample_defs)
  have n: "\<not> False" by simp
  have a3: "inventory wa (index sampleSlot) = Some charcoal"
    by (simp add: wa_def charcoal_def sample_defs)
  have r3: "inventory wr (index sampleSlot) = Some (newItemStack ''minecraft:dirt'')"
    by (simp add: wr_def sample_defs)
  have a4: "\<not> isStackableWith charcoal
      (machineItemStackToItemStack sampleImports sampleSlot
         (getMachineSlotItem sampleImports wa sampleLocation (slotId sampleSlot)))"
    by (simp add: getMachineSlotItem_def sampleUid)
       (simp add: wa_def charcoal_def sample_defs isStackableWith_def newItemStack_def)
  have r4: "\<not> isStackableWith (newItemStack ''minecraft:dirt'')
      (machineItemStackToItemStack sampleImports sampleSlot
         (getMachineSlotItem sampleImports wr sampleLocation (slotId sampleSlot)))"
    by (simp add: getMachineSlotItem_def sampleUid)
       (simp add: wr_def sample_defs isStackableWith_def newItemStack_def)
  have a5: "typeId charcoal \<in> set (allowedItems sampleSlot)
            \<and> isStackableWith charcoal (newItemStack (typeId charcoal))"
    by (simp add: charcoal_def sample_defs isStackableWith_def newItemStack_def)
  have r5: "\<not> (typeId (newItemStack ''minecraft:dirt'') \<in> set (allowedItems sampleSlot)
            \<and> isStackableWith (newItemStack ''minecraft:dirt'')
                 (newItemStack (typeId (newItemStack ''minecraft:dirt''))))"
    by (simp add: sample_defs isStackableWith_def newItemStack_def)
  from handleItemSlot_incompatible [OF a1 n a3 a4] a5
  obtain j where j: "0 \<le> j" "allowedItems sampleSlot ! nat j = typeId charcoal"
      "\<forall>k < nat j. allowedItems sampleSlot ! k \<noteq> typeId charcoal"
      "j < int (length (allowedItems sampleSlot))"
    and ha: "handleItemSlot sampleImports sampleLocation wa sampleSlot False =
       wa\<lparr>cursorItem := withoutUiItem sampleImports (cursorItem wa),
          playerInventory := map (withoutUiItem sampleImports) (playerInventory wa),
          slotItems := (slotItems wa)((getBlockUniqueId sampleImports sampleLocation, slotId sampleSlot) :=
                          Some \<lparr>typeIndex = j, count = amount charcoal\<rparr>),
          effects := effects wa @
            [ClearUiItems,
             SetMachineSlotItem (getBlockUniqueId sampleImports sampleLocation) (slotId sampleSlot)
               (Some \<lparr>typeIndex = j, count = amount charcoal\<rparr>) False]\<rparr>"
    by blast
  have "nat j < 2" using j(4) by (simp add: sample_defs)
  then have "nat j = 0 \<or> nat j = 1" by linarith
  with j(1,2) have j1: "j = 1"
    by (auto simp: charcoal_def sample_defs)
  have A: "handleItemSlot sampleImports sampleLocation wa sampleSlot False =
         wa\<lparr>playerInventory := [Some (newItemStack ''minecraft:coal''), None, None],
           slotItems := (slotItems wa)((''0,64,-2,overworld'', 0) := Some \<lparr>typeIndex = 1, count = 3\<rparr>),
           effects := [ClearUiItems,
                       SetMachineSlotItem ''0,64,-2,overworld'' 0 (Some \<lparr>typeIndex = 1, count = 3\<rparr>) False]\<rparr>"
    unfolding ha j1
    by (simp add: sampleUid)
       (simp add: wa_def charcoal_def sample_defs withoutUiItem_def isUiItem_def newItemStack_def)
  from handleItemSlot_incompatible [OF r1 n r3 r4] r5
  have "handleItemSlot sampleImports sampleLocation wr sampleSlot False =
              wr\<lparr>inventory := (inventory wr)(index sampleSlot \<mapsto> machineItemStackToItemStack sampleImports sampleSlot None),
                cursorItem := withoutUiItem sampleImports (cursorItem wr),
                playerInventory := map (withoutUiItem sampleImports) (playerInventory wr),
                slotItems := (slotItems wr)((getBlockUniqueId sampleImports sampleLocation, slotId sampleSlot) := None),
                effects := effects wr @
                  [ClearUiItems,
                   SetMachineSlotItem (getBlockUniqueId sampleImports sampleLocation) (slotId sampleSlot) None False,
                   SpawnItem (newItemStack ''minecraft:dirt'') (playerDimension wr) (playerLocation wr),
                   SetItem (index sampleSlot) (Some (machineItemStackToItemStack sampleImports sampleSlot None))]\<rparr>"
    by blast
  then have R: "handleItemSlot sampleImports sampleLocation wr sampleSlot False =
         wr\<lparr>inventory := [4 \<mapsto> newItemStack ''fluffyalien_energisticscore:ui_empty_slot''],
           playerInventory := [Some (newItemStack ''minecraft:coal''), None, None],
           effects := [ClearUiItems,
                       SetMachineSlotItem ''0,64,-2,overworld'' 0 None False,
                       SpawnItem (newItemStack ''minecraft:dirt'') ''overworld'' (2, 64, 0),
                       SetItem 4 (Some (newItemStack ''fluffyalien_energisticscore:ui_empty_slot''))]\<rparr>"
    by (simp add: sampleUid)
       (simp add: wr_def sample_defs withoutUiItem_def isUiItem_def newItemStack_def)
  show ?thesis
    using A R unfolding wa_def wr_def Let_def by simp
qed

text \<open>
  C9. With no changed-slot mark for the slot and outside the initial pass, a second call
  of \<open>handleItemSlot\<close> right after a first one returns the world of the first call
  as it is: since the effect list is part of the world, the second call makes no
  container write and no ledger write (and no sweep or spawn either). The stack that
  \<open>machineItemStackToItemStack\<close> builds is assumed to represent the logical item
  (\<open>rendersLogicalItems\<close>, for the occupant of the container slot).
\<close>

theorem handleItemSlot_idempotent:
  assumes clean: "\<not> slotChanged I w loc el"
    and rend: "rendersLogicalItems I el (inventory w (index el))"
  shows "handleItemSlot I loc (handleItemSlot I loc w el False) el False
           = handleItemSlot I loc w el False"
proof -
  let ?uid = "getBlockUniqueId I loc"
  let ?ph = "machineItemStackToItemStack I el None"
  have amt: "amount (machineItemStackToItemStack I el (Some \<lparr>typeIndex = i, count = amount item\<rparr>))
               = amount item"
    if "inventory w (index el) = Some item" for item i
    using rend that by (simp add: rendersLogicalItems_def)
  have cnt: "isStackableWith (machineItemStackToItemStack I el (Some m))
               (machineItemStackToItemStack I el (Some (m\<lparr>count := c\<rparr>)))" for m c
    using rend by (simp add: rendersLogicalItems_def)
  have kind: "isStackableWith (machineItemStackToItemStack I el (Some \<lparr>typeIndex = i, count = c\<rparr>))
               (newItemStack (allowedItems el ! nat i))"
    if "0 \<le> i" "i < int (length (allowedItems el))" for i c
    using rend that by (simp add: rendersLogicalItems_def)
  show ?thesis
  proof (cases "inventory w (index el)")
    case None
    let ?w1 = "handleItemSlot I loc w el False"
    have w1: "?w1 =
       w\<lparr>inventory := (inventory w)(index el \<mapsto> ?ph),
         cursorItem := withoutUiItem I (cursorItem w),
         playerInventory := map (withoutUiItem I) (playerInventory w),
         slotItems := (slotItems w)((?uid, slotId el) := None),
         effects := effects w @
           [ClearUiItems, SetMachineSlotItem ?uid (slotId el) None False,
            SetItem (index el) (Some ?ph)]\<rparr>"
      by (rule handleItemSlot_empty_slot[OF clean None])
    have c1: "\<not> slotChanged I ?w1 loc el"
      using clean by (simp add: w1 slotChanged_def)
    have i1: "inventory ?w1 (index el) = Some ?ph" by (simp add: w1)
    have g1: "getMachineSlotItem I ?w1 loc (slotId el) = None"
      by (simp add: w1 getMachineSlotItem_def)
    show ?thesis
      by (rule handleItemSlot_settled[OF c1 i1]) (simp_all add: g1 isStackableWith_refl)
  next
    case (Some item)
    let ?exp = "machineItemStackToItemStack I el (getMachineSlotItem I w loc (slotId el))"
    show ?thesis
    proof (cases "isStackableWith item ?exp")
      case stack: True
      show ?thesis
      proof (cases "getMachineSlotItem I w loc (slotId el)")
        case None
        have "handleItemSlot I loc w el False = w"
          by (rule handleItemSlot_settled[OF clean Some stack]) (simp add: None)
        then show ?thesis by simp
      next
        case m: (Some m)
        show ?thesis
        proof (cases "amount item = amount (machineItemStackToItemStack I el (Some m))")
          case True
          have "handleItemSlot I loc w el False = w"
            by (rule handleItemSlot_settled[OF clean Some stack]) (simp add: m True)
          then show ?thesis by simp
        next
          case False
          let ?m' = "\<lparr>typeIndex = typeIndex m, count = amount item\<rparr>"
          let ?w1 = "handleItemSlot I loc w el False"
          have w1: "?w1 =
             w\<lparr>slotItems := (slotItems w)((?uid, slotId el) := Some ?m'),
               effects := effects w @
                 [SetMachineSlotItem ?uid (slotId el) (Some ?m') False]\<rparr>"
            using stack by (intro handleItemSlot_count_update[OF clean Some m _ False]) (simp add: m)
          have c1: "\<not> slotChanged I ?w1 loc el"
            using clean by (simp add: w1 slotChanged_def)
          have i1: "inventory ?w1 (index el) = Some item" by (simp add: w1 Some)
          have g1: "getMachineSlotItem I ?w1 loc (slotId el) = Some ?m'"
            by (simp add: w1 getMachineSlotItem_def)
          have "m\<lparr>count := amount item\<rparr> = ?m'" by simp
          with cnt[of m "amount item"]
          have "isStackableWith (machineItemStackToItemStack I el (Some m))
                  (machineItemStackToItemStack I el (Some ?m'))" by simp
          with stack have s1: "isStackableWith item (machineItemStackToItemStack I el (Some ?m'))"
            by (auto simp: m intro: isStackableWith_trans)
          show ?thesis
            by (rule handleItemSlot_settled[OF c1 i1]) (simp_all add: g1 s1 amt[OF Some])
        qed
      qed
    next
      case nostack: False
      show ?thesis
      proof (cases "indexOf (allowedItems el) (typeId item) = - 1
                     \<or> \<not> isStackableWith item (newItemStack (typeId item))")
        case True
        let ?w1 = "handleItemSlot I loc w el False"
        have w1: "?w1 =
           w\<lparr>inventory := (inventory w)(index el \<mapsto> ?ph),
             cursorItem := withoutUiItem I (cursorItem w),
             playerInventory := map (withoutUiItem I) (playerInventory w),
             slotItems := (slotItems w)((?uid, slotId el) := None),
             effects := effects w @
               [ClearUiItems, SetMachineSlotItem ?uid (slotId el) None False,
                SpawnItem item (playerDimension w) (playerLocation w),
                SetItem (index el) (Some ?ph)]\<rparr>"
          by (rule handleItemSlot_reject[OF clean Some nostack True])
        have c1: "\<not> slotChanged I ?w1 loc el"
          using clean by (simp add: w1 slotChanged_def)
        have i1: "inventory ?w1 (index el) = Some ?ph" by (simp add: w1)
        have g1: "getMachineSlotItem I ?w1 loc (slotId el) = None"
          by (simp add: w1 getMachineSlotItem_def)
        show ?thesis
          by (rule handleItemSlot_settled[OF c1 i1]) (simp_all add: g1 isStackableWith_refl)
      next
        case False
        then have found: "indexOf (allowedItems el) (typeId item) \<noteq> - 1"
          and fresh: "isStackableWith item (newItemStack (typeId item))"
          by simp_all
        let ?j = "indexOf (allowedItems el) (typeId item)"
        let ?m' = "\<lparr>typeIndex = ?j, count = amount item\<rparr>"
        let ?w1 = "handleItemSlot I loc w el False"
        have mem: "typeId item \<in> set (allowedItems el)"
          using found by (simp add: indexOf_minus_one)
        have w1: "?w1 =
           w\<lparr>cursorItem := withoutUiItem I (cursorItem w),
             playerInventory := map (withoutUiItem I) (playerInventory w),
             slotItems := (slotItems w)((?uid, slotId el) := Some ?m'),
             effects := effects w @
               [ClearUiItems, SetMachineSlotItem ?uid (slotId el) (Some ?m') False]\<rparr>"
          by (rule handleItemSlot_accept[OF clean Some nostack found fresh])
        have c1: "\<not> slotChanged I ?w1 loc el"
          using clean by (simp add: w1 slotChanged_def)
        have i1: "inventory ?w1 (index el) = Some item" by (simp add: w1 Some)
        have g1: "getMachineSlotItem I ?w1 loc (slotId el) = Some ?m'"
          by (simp add: w1 getMachineSlotItem_def)
        have "isStackableWith (machineItemStackToItemStack I el (Some ?m'))
                (newItemStack (typeId item))"
          using kind[of ?j "amount item"] indexOf_found[OF mem] by simp
        with fresh have s1: "isStackableWith item (machineItemStackToItemStack I el (Some ?m'))"
          by (blast intro: isStackableWith_trans isStackableWith_sym)
        show ?thesis
          by (rule handleItemSlot_settled[OF c1 i1]) (simp_all add: g1 s1 amt[OF Some])
      qed
    qed
  qed
qed

theorem handleItemSlot_idempotent_witness:
  "(let w = sampleWorld\<lparr>inventory := [4 \<mapsto> \<lparr>typeId = ''minecraft:charcoal'', amount = 3, nameTag = None\<rparr>]\<rparr>;
        w1 = handleItemSlot sampleImports sampleLocation w sampleSlot False
    in \<not> slotChanged sampleImports w sampleLocation sampleSlot
       \<and> rendersLogicalItems sampleImports sampleSlot (inventory w (index sampleSlot))
       \<and> w1 \<noteq> w
       \<and> handleItemSlot sampleImports sampleLocation w1 sampleSlot False = w1)"
proof -
  define w where "w = sampleWorld\<lparr>inventory := [4 \<mapsto> \<lparr>typeId = ''minecraft:charcoal'', amount = 3, nameTag = None\<rparr>]\<rparr>"
  have h1: "\<not> slotChanged sampleImports w sampleLocation sampleSlot"
    by (simp add: slotChanged_def sampleUid) (simp add: w_def sample_defs)
  have h2: "rendersLogicalItems sampleImports sampleSlot (inventory w (index sampleSlot))"
    by (rule sample_rendersLogicalItems)
  have "effects (handleItemSlot sampleImports sampleLocation w sampleSlot False) \<noteq> effects w"
    by (simp add: handleItemSlot_def Let_def slotChanged_def getMachineSlotItem_def
          clearUiItemsFromPlayer_world setMachineSlotItem_def setItem_def spawnItem_def
          w_def sample_defs isStackableWith_def newItemStack_def indexOf_def)
  then have h3: "handleItemSlot sampleImports sampleLocation w sampleSlot False \<noteq> w"
    by auto
  show ?thesis
    using h1 h2 h3 handleItemSlot_idempotent [OF h1 h2]
    unfolding w_def Let_def by simp
qed

section \<open>Properties of the storage bar renderer\<close>





















section \<open>Properties of the merged handler response\<close>

lemma mergeStorageBars_lookup:
  assumes "ident \<notin> set objectPrototypeNames"
  shows "mergeStorageBars ds acc ident =
     (case acc ident of
        Some stored \<Rightarrow>
          Some (stored\<lparr>change := foldl jsAdd (change stored)
                  (map change (filter (\<lambda>d. element d = ident) ds))\<rparr>)
      | None \<Rightarrow>
          (case filter (\<lambda>d. element d = ident) ds of
             [] \<Rightarrow> None
           | first # others \<Rightarrow>
               Some (first\<lparr>change := foldl jsAdd (change first) (map change others)\<rparr>)))"
proof (induction ds arbitrary: acc)
  case Nil
  then show ?case by (simp split: option.splits)
next
  case (Cons d ds)
  show ?case
  proof (cases "acc (element d)")
    case None
    then show ?thesis
      using assms by (auto simp: Cons.IH split: option.splits)
  next
    case (Some stored)
    then show ?thesis
      by (simp add: Cons.IH split: option.splits)
  qed
qed

lemma mergeStorageBars_inherited:
  assumes "ident \<in> set objectPrototypeNames" and "acc ident = None"
  shows "mergeStorageBars ds acc ident = None"
  using assms(2)
proof (induction ds arbitrary: acc)
  case Nil
  then show ?case by simp
next
  case (Cons d ds)
  show ?case
  proof (cases "acc (element d)")
    case None
    show ?thesis
    proof (cases "element d \<in> set objectPrototypeNames")
      case True
      with None Cons.prems show ?thesis
        by (simp add: Cons.IH)
    next
      case False
      with assms(1) have "element d \<noteq> ident" by auto
      with Cons.prems have e: "(acc(element d \<mapsto> d)) ident = None" by simp
      have "mergeStorageBars ds (acc(element d \<mapsto> d)) ident = None"
        by (rule Cons.IH[where acc = "acc(element d \<mapsto> d)"]) (rule e)
      with None False show ?thesis by simp
    qed
  next
    case (Some stored)
    with Cons.prems have "element d \<noteq> ident" by auto
    with Cons.prems
    have e: "(acc(element d \<mapsto> stored\<lparr>change := jsAdd (change stored) (change d)\<rparr>)) ident = None"
      by simp
    have "mergeStorageBars ds
            (acc(element d \<mapsto> stored\<lparr>change := jsAdd (change stored) (change d)\<rparr>)) ident = None"
      by (rule Cons.IH[where acc = "acc(element d \<mapsto> stored\<lparr>change := jsAdd (change stored) (change d)\<rparr>)"])
         (rule e)
    with Some show ?thesis by simp
  qed
qed








section \<open>Properties of the progress indicator\<close>



section \<open>Properties of the reconciliation pass\<close>

text \<open>
  C7. When the entity is no longer valid at the moment the handler call resumes, the
  pass returns normally with the world untouched: no container write, no ledger write,
  no spawn, no sweep (the effect list is part of the world) and no error.
\<close>

theorem updateEntityUi_invalid_entity:
  assumes "uiElements d = Some elements" and "updateUiEvent d = Some handler"
    and "handler \<noteq> ''''" and "\<not> entityValid w"
  shows "updateEntityUi I d w0 result w init = Inr w"
  using assms by (simp add: updateEntityUi_def Let_def split: prod.splits)

theorem updateEntityUi_invalid_entity_witness:
  "uiElements sampleMachine \<noteq> None
   \<and> updateUiEvent sampleMachine = Some ''example:generator__updateUiHandler''
   \<and> \<not> entityValid (driftedWorld\<lparr>entityValid := False\<rparr>)
   \<and> updateEntityUi sampleImports sampleMachine sampleWorld sampleResponse
        (driftedWorld\<lparr>entityValid := False\<rparr>) False
      = Inr (driftedWorld\<lparr>entityValid := False\<rparr>)"
proof -
  have h1: "uiElements sampleMachine =
      Some [(''energyBar'', storageBar 0), (''fuel'', itemSlot sampleSlot),
            (''burn'', progressIndicator flame 5)]"
    and h2: "updateUiEvent sampleMachine = Some ''example:generator__updateUiHandler''"
    by (simp_all add: sampleMachine_def)
  have h3: "''example:generator__updateUiHandler'' \<noteq> ''''"
    by simp
  have h4: "\<not> entityValid (driftedWorld\<lparr>entityValid := False\<rparr>)"
    by simp
  show ?thesis
    using h1 h2 h4 updateEntityUi_invalid_entity [OF h1 h2 h3 h4]
    by simp
qed

text \<open>
  C8. A pass that runs its element loop to the end leaves no changed slot recorded for
  any block uid, whichever block the pass was for.
\<close>

theorem updateEntityUi_clears_every_block:
  assumes "entityValid w" and "updateEntityUi I d w0 result w init = Inr w'"
  shows "\<forall>uid. machineChangedItemSlots w' uid = None"
  using assms
  by (auto simp: updateEntityUi_def Let_def split: option.splits if_splits sum.splits)

theorem updateEntityUi_clears_every_block_witness:
  "entityValid driftedWorld
   \<and> machineChangedItemSlots driftedWorld ''9,9,9,nether'' = Some [1, 2]
   \<and> (\<exists>w'. updateEntityUi sampleImports sampleMachine sampleWorld sampleResponse driftedWorld False
             = Inr w'
          \<and> (\<forall>uid. machineChangedItemSlots w' uid = None))"
proof -
  have h1: "entityValid driftedWorld"
    by (simp add: sample_defs)
  have "\<exists>w'. updateEntityUi sampleImports sampleMachine sampleWorld sampleResponse driftedWorld False
             = Inr w'"
    by (simp add: updateEntityUi_def renderElement_def handleBarItems_def
        handleProgressIndicator_def storageBarChangesOf_def progressIndicatorsOf_def
        isInteger_def Let_def sample_defs)
  then obtain w' where h2:
    "updateEntityUi sampleImports sampleMachine sampleWorld sampleResponse driftedWorld False = Inr w'"
    by blast
  show ?thesis
    using h1 h2 updateEntityUi_clears_every_block [OF h1 h2]
    by (simp add: sample_defs)
qed

end
